theory Spec2Isabelle
  imports Main "HOL-Library.Sublist" "HOL-Library.Monad_Syntax"
begin

section \<open>Values, documents and exceptions\<close>

text \<open>
  The service of \<^verbatim>\<open>server.py\<close> moves three kinds of data around: JSON request
  payloads, MongoDB documents and the dictionaries exchanged with the Resend client. All
  three are Python dictionaries from strings to values; the values that occur are strings,
  \<^verbatim>\<open>None\<close>, datetimes, the store's \<^verbatim>\<open>ObjectId\<close>s and lists (the
  \<^verbatim>\<open>"to"\<close> entry of a send request). Numbers, booleans and nested objects are not
  part of the model.
\<close>

record datetime =
  year :: nat
  month :: nat
  day :: nat
  hour :: nat
  minute :: nat
  second :: nat
  microsecond :: nat
  utcoffset :: "int option"  \<comment> \<open>minutes east of UTC; \<open>None\<close> for a naive datetime\<close>

datatype pyval =
    PNone
  | PStr string
  | PDate datetime
  | PObjectId nat
  | PList "pyval list"

type_synonym dict = "string \<rightharpoonup> pyval"

datatype exn =
    KeyError string
  | ValueError string
  | ResponseValidationError
  | ResendError string
  | PyMongoError string

text \<open>\<^verbatim>\<open>str(e)\<close>: the message of the exception; a \<^verbatim>\<open>KeyError\<close> prints its key quoted.\<close>

fun str_exn :: "exn \<Rightarrow> string" where
  "str_exn (KeyError k) = [CHR 0x27] @ k @ [CHR 0x27]"
| "str_exn (ValueError m) = m"
| "str_exn ResponseValidationError = []"
| "str_exn (ResendError m) = m"
| "str_exn (PyMongoError m) = m"

text \<open>\<^verbatim>\<open>d.get(k)\<close>: \<^verbatim>\<open>None\<close> when the key is absent.\<close>

definition dict_get :: "dict \<Rightarrow> string \<Rightarrow> pyval" where
  "dict_get d k = (case d k of None \<Rightarrow> PNone | Some v \<Rightarrow> v)"

text \<open>An optional string inside an f-string: \<^verbatim>\<open>None\<close> prints as the word None.\<close>

definition fstr :: "string option \<Rightarrow> string" where
  "fstr v = (case v of None \<Rightarrow> ''None'' | Some s \<Rightarrow> s)"

definition opt_val :: "string option \<Rightarrow> pyval" where
  "opt_val v = (case v of None \<Rightarrow> PNone | Some s \<Rightarrow> PStr s)"


section \<open>Datetimes and their ISO-8601 text\<close>

definition is_leap :: "nat \<Rightarrow> bool" where
  "is_leap y = (y mod 4 = 0 \<and> (y mod 100 \<noteq> 0 \<or> y mod 400 = 0))"

definition days_in_month :: "nat \<Rightarrow> nat \<Rightarrow> nat" where
  "days_in_month y m =
     (if m = 2 then (if is_leap y then 29 else 28)
      else if m = 4 \<or> m = 6 \<or> m = 9 \<or> m = 11 then 30 else 31)"

text \<open>The values Python's \<^verbatim>\<open>datetime\<close> constructor accepts.\<close>

definition valid_datetime :: "datetime \<Rightarrow> bool" where
  "valid_datetime d =
     (1 \<le> year d \<and> year d \<le> 9999 \<and> 1 \<le> month d \<and> month d \<le> 12 \<and>
      1 \<le> day d \<and> day d \<le> days_in_month (year d) (month d) \<and>
      hour d < 24 \<and> minute d < 60 \<and> second d < 60 \<and> microsecond d < 1000000 \<and>
      (case utcoffset d of None \<Rightarrow> True | Some off \<Rightarrow> - 1440 < off \<and> off < 1440))"

definition digit_char :: "nat \<Rightarrow> char" where
  "digit_char n = char_of (48 + n)"

definition digit_val :: "char \<Rightarrow> nat option" where
  "digit_val c =
     (let k = (of_char c :: nat) in if 48 \<le> k \<and> k \<le> 57 then Some (k - 48) else None)"

text \<open>
  \<open>pad w n\<close> is \<^verbatim>\<open>'%0wd' % n\<close> for \<open>n < 10 ^ w\<close>: the \<open>w\<close> low decimal digits of
  \<open>n\<close>, most significant first. Every field of a valid datetime fits its width.
\<close>

fun pad :: "nat \<Rightarrow> nat \<Rightarrow> string" where
  "pad 0 n = []"
| "pad (Suc w) n = digit_char (n div 10 ^ w mod 10) # pad w n"

fun read_digits :: "nat \<Rightarrow> nat \<Rightarrow> string \<Rightarrow> (nat \<times> string) option" where
  "read_digits 0 acc s = Some (acc, s)"
| "read_digits (Suc w) acc [] = None"
| "read_digits (Suc w) acc (c # cs) =
     (case digit_val c of None \<Rightarrow> None | Some v \<Rightarrow> read_digits w (acc * 10 + v) cs)"

definition expect :: "char \<Rightarrow> string \<Rightarrow> string option" where
  "expect c s = (case s of [] \<Rightarrow> None | x # xs \<Rightarrow> if x = c then Some xs else None)"

definition format_offset :: "int \<Rightarrow> string" where
  "format_offset off =
     (if off < 0 then ''-'' else ''+'') @
     pad 2 (nat \<bar>off\<bar> div 60) @ '':'' @ pad 2 (nat \<bar>off\<bar> mod 60)"

text \<open>
  \<^verbatim>\<open>datetime.isoformat()\<close>: \<^verbatim>\<open>YYYY-MM-DDTHH:MM:SS\<close>, then \<^verbatim>\<open>.ffffff\<close> unless
  the microseconds are zero, then the offset \<^verbatim>\<open>+HH:MM\<close> of an aware datetime.
\<close>

definition isoformat :: "datetime \<Rightarrow> string" where
  "isoformat d =
     pad 4 (year d) @ ''-'' @ pad 2 (month d) @ ''-'' @ pad 2 (day d) @ ''T'' @
     pad 2 (hour d) @ '':'' @ pad 2 (minute d) @ '':'' @ pad 2 (second d) @
     (if microsecond d = 0 then [] else ''.'' @ pad 6 (microsecond d)) @
     (case utcoffset d of None \<Rightarrow> [] | Some off \<Rightarrow> format_offset off)"

text \<open>\<^verbatim>\<open>strftime('%Y-%m-%d %H:%M:%S UTC')\<close>, the footer line of the email.\<close>

definition strftime_received :: "datetime \<Rightarrow> string" where
  "strftime_received d =
     pad 4 (year d) @ ''-'' @ pad 2 (month d) @ ''-'' @ pad 2 (day d) @ '' '' @
     pad 2 (hour d) @ '':'' @ pad 2 (minute d) @ '':'' @ pad 2 (second d) @ '' UTC''"

definition parse_offset :: "string \<Rightarrow> int option option" where
  "parse_offset s =
     (case s of
        [] \<Rightarrow> Some None
      | sg # r \<Rightarrow>
          if sg = CHR ''+'' \<or> sg = CHR ''-'' then do {
            (hh, r1) \<leftarrow> read_digits 2 0 r;
            r2 \<leftarrow> expect CHR '':'' r1;
            (mm, r3) \<leftarrow> read_digits 2 0 r2;
            (if r3 = [] \<and> mm < 60
             then Some (Some ((if sg = CHR ''-'' then - 1 else 1) * int (hh * 60 + mm)))
             else None)
          } else None)"

definition parse_fraction :: "string \<Rightarrow> (nat \<times> string) option" where
  "parse_fraction s =
     (case s of
        [] \<Rightarrow> Some (0, [])
      | c # r \<Rightarrow> if c = CHR ''.'' then read_digits 6 0 r else Some (0, s))"

text \<open>
  The reader for the text that \<open>isoformat\<close> writes (the format of the stored timestamps):
  fixed-width fields, an optional six-digit fraction, an optional offset; the fields must
  form a valid datetime.
\<close>

definition parse_isoformat :: "string \<Rightarrow> datetime option" where
  "parse_isoformat s = do {
     (y, s1) \<leftarrow> read_digits 4 0 s;
     s2 \<leftarrow> expect CHR ''-'' s1;
     (mo, s3) \<leftarrow> read_digits 2 0 s2;
     s4 \<leftarrow> expect CHR ''-'' s3;
     (dd, s5) \<leftarrow> read_digits 2 0 s4;
     s6 \<leftarrow> expect CHR ''T'' s5;
     (hh, s7) \<leftarrow> read_digits 2 0 s6;
     s8 \<leftarrow> expect CHR '':'' s7;
     (mi, s9) \<leftarrow> read_digits 2 0 s8;
     s10 \<leftarrow> expect CHR '':'' s9;
     (ss, s11) \<leftarrow> read_digits 2 0 s10;
     (us, s12) \<leftarrow> parse_fraction s11;
     tz \<leftarrow> parse_offset s12;
     (let d = \<lparr>year = y, month = mo, day = dd, hour = hh, minute = mi, second = ss,
                microsecond = us, utcoffset = tz\<rparr>
      in if valid_datetime d then Some d else None)
   }"

text \<open>
  \<^verbatim>\<open>datetime.fromisoformat(s)\<close>. The library reads more spellings of ISO-8601 than
  \<open>isoformat\<close> writes (dates alone, a space for the \<^verbatim>\<open>T\<close>, shorter fractions); what it
  makes of those is the parameter \<open>other\<close>. A string that neither reads raises
  \<^verbatim>\<open>ValueError\<close>.
\<close>

definition fromisoformat :: "(string \<Rightarrow> datetime option) \<Rightarrow> string \<Rightarrow> exn + datetime" where
  "fromisoformat other s =
     (case parse_isoformat s of
        Some d \<Rightarrow> Inr d
      | None \<Rightarrow>
          (case other s of
             Some d \<Rightarrow> Inr d
           | None \<Rightarrow> Inl (ValueError (''Invalid isoformat string: '' @ s))))"


section \<open>Configuration read at import time (lines 16-30, 218-224)\<close>

record config =
  mongo_url :: string
  db_name :: string
  RESEND_API_KEY :: "string option"
  SENDER_EMAIL :: string
  RECIPIENT_EMAIL :: "string option"
  allow_origins :: "string list"

text \<open>\<^verbatim>\<open>s.split(',')\<close>: never empty; the empty string splits into one empty part.\<close>

fun split_on :: "char \<Rightarrow> string \<Rightarrow> string list" where
  "split_on c [] = [[]]"
| "split_on c (x # xs) =
     (if x = c then [] # split_on c xs
      else (case split_on c xs of [] \<Rightarrow> [[x]] | p # ps \<Rightarrow> (x # p) # ps))"

text \<open>
  The module body, run once when the process starts. \<open>environ\<close> is the process
  environment after \<^verbatim>\<open>load_dotenv\<close>. \<^verbatim>\<open>os.environ[k]\<close> raises \<^verbatim>\<open>KeyError\<close> on a
  missing key and the import fails; \<^verbatim>\<open>os.environ.get(k)\<close> yields \<^verbatim>\<open>None\<close>, or the
  default given. The driver's two constructors, \<^verbatim>\<open>AsyncIOMotorClient(url)\<close> and
  \<^verbatim>\<open>client[name]\<close>, are parameters: each says which exception, if any, it raises.
\<close>

definition startup ::
  "(string \<Rightarrow> exn option) \<Rightarrow> (string \<Rightarrow> exn option) \<Rightarrow> (string \<rightharpoonup> string) \<Rightarrow> exn + config" where
  "startup motor_client get_database environ =
     (case environ ''MONGO_URL'' of
        None \<Rightarrow> Inl (KeyError ''MONGO_URL'')
      | Some url \<Rightarrow>
          (case motor_client url of
             Some e \<Rightarrow> Inl e
           | None \<Rightarrow>
               (case environ ''DB_NAME'' of
                  None \<Rightarrow> Inl (KeyError ''DB_NAME'')
                | Some dbn \<Rightarrow>
                    (case get_database dbn of
                       Some e \<Rightarrow> Inl e
                     | None \<Rightarrow>
                         Inr \<lparr>mongo_url = url,
                              db_name = dbn,
                              RESEND_API_KEY = environ ''RESEND_API_KEY'',
                              SENDER_EMAIL =
                                (case environ ''SENDER_EMAIL'' of
                                   None \<Rightarrow> ''onboarding@resend.dev''
                                 | Some v \<Rightarrow> v),
                              RECIPIENT_EMAIL = environ ''RECIPIENT_EMAIL'',
                              allow_origins =
                                split_on CHR '',''
                                  (case environ ''CORS_ORIGINS'' of
                                     None \<Rightarrow> ''*''
                                   | Some v \<Rightarrow> v)\<rparr>))))"


section \<open>Models (lines 40-55)\<close>

record StatusCheckCreate =
  client_name :: string

text \<open>
  \<^verbatim>\<open>StatusCheck\<close> has the field of \<^verbatim>\<open>StatusCheckCreate\<close> and two fields with default
  factories. \<open>id'\<close> is the field \<^verbatim>\<open>id\<close>.
\<close>

record StatusCheck = StatusCheckCreate +
  id' :: string
  timestamp :: datetime

record ContactFormRequest =
  name :: string
  email :: string
  company :: string
  message :: string


section \<open>The world outside the module\<close>

text \<open>
  What one request observes of its surroundings: the values \<^verbatim>\<open>uuid.uuid4()\<close> and the
  clock hand out (numbered by call within the request; in a listing, by record), what the
  Resend client answers to a send request, whether the store raises on an insert or on a
  find, the \<^verbatim>\<open>ObjectId\<close> the driver gives an inserted document, the library's reading
  of timestamp spellings outside \<open>parse_isoformat\<close>, and the two grammars of an email
  address. The Resend client answers a send request with a dictionary or raises.
\<close>

record world =
  uuid4 :: "nat \<Rightarrow> string"
  clock :: "nat \<Rightarrow> datetime"
  Emails_send :: "dict \<Rightarrow> exn + dict"
  insert_fault :: "exn option"
  find_fault :: "exn option"
  ObjectId :: nat
  fromisoformat_other :: "string \<Rightarrow> datetime option"
  local_part_ok :: "string \<Rightarrow> bool"
  domain_ok :: "string \<Rightarrow> bool"

text \<open>\<^verbatim>\<open>datetime.now(timezone.utc)\<close>: the clock's reading, aware, at offset zero.\<close>

definition now_utc :: "world \<Rightarrow> nat \<Rightarrow> datetime" where
  "now_utc w k = (clock w k)\<lparr>utcoffset := Some 0\<rparr>"

datatype level = INFO | ERROR

text \<open>
  The state a handler changes: the two collections of the database, the send requests
  handed to the Resend client, and the records written to the logger. A handler runs as one
  step; interleaving with other requests is not modelled.
\<close>

record state =
  status_checks :: "dict list"
  contact_submissions :: "dict list"
  resend_requests :: "dict list"
  logger :: "(level \<times> string) list"

text \<open>
  How a request ends: the handler returns a value (200), raises \<^verbatim>\<open>HTTPException\<close>, lets
  another exception escape (the framework answers 500), or never runs because the payload
  failed validation (422, with the offending fields).
\<close>

datatype 'a outcome =
    Returned 'a
  | HTTPException nat string
  | Unhandled exn
  | RequestValidationError "string list"

fun status_code :: "'a outcome \<Rightarrow> nat" where
  "status_code (Returned v) = 200"
| "status_code (HTTPException c d) = c"
| "status_code (Unhandled e) = 500"
| "status_code (RequestValidationError fs) = 422"


section \<open>The document store adapter\<close>

text \<open>
  \<^verbatim>\<open>insert_one(doc)\<close> appends the document, giving it an \<^verbatim>\<open>_id\<close> when it has none, or
  raises and leaves the collection as it was.
\<close>

definition insert_one :: "world \<Rightarrow> dict \<Rightarrow> dict list \<Rightarrow> exn + dict list" where
  "insert_one w doc coll =
     (case insert_fault w of
        Some e \<Rightarrow> Inl e
      | None \<Rightarrow>
          Inr (coll @ [case doc ''_id'' of
                         None \<Rightarrow> doc(''_id'' \<mapsto> PObjectId (ObjectId w))
                       | Some v \<Rightarrow> doc]))"

text \<open>
  \<^verbatim>\<open>find({}, {"_id": 0}).to_list(n)\<close>: the first \<open>n\<close> documents in the collection's
  order, without their \<^verbatim>\<open>_id\<close>.
\<close>

definition find_to_list :: "world \<Rightarrow> nat \<Rightarrow> dict list \<Rightarrow> exn + dict list" where
  "find_to_list w n coll =
     (case find_fault w of
        Some e \<Rightarrow> Inl e
      | None \<Rightarrow> Inr (map (\<lambda>d. d(''_id'' := None)) (take n coll)))"


section \<open>Status checks (lines 62-84)\<close>

definition status_doc :: "StatusCheck \<Rightarrow> dict" where
  "status_doc status_obj =
     [''id'' \<mapsto> PStr (id' status_obj),
      ''client_name'' \<mapsto> PStr (client_name status_obj),
      ''timestamp'' \<mapsto> PStr (isoformat (timestamp status_obj))]"

definition create_status_check ::
  "world \<Rightarrow> StatusCheckCreate \<Rightarrow> state \<Rightarrow> StatusCheck outcome \<times> state" where
  "create_status_check w input s =
     (let status_obj = \<lparr>client_name = client_name input,
                        id' = uuid4 w 0, timestamp = now_utc w 0\<rparr>;
          doc = status_doc status_obj
      in case insert_one w doc (status_checks s) of
           Inl e \<Rightarrow> (Unhandled e, s)
         | Inr docs \<Rightarrow> (Returned status_obj, s\<lparr>status_checks := docs\<rparr>))"

text \<open>The loop of lines 80-82 on one document.\<close>

definition convert_timestamp :: "(string \<Rightarrow> datetime option) \<Rightarrow> dict \<Rightarrow> exn + dict" where
  "convert_timestamp other check =
     (case check ''timestamp'' of
        None \<Rightarrow> Inl (KeyError ''timestamp'')
      | Some (PStr str) \<Rightarrow>
          (case fromisoformat other str of
             Inl e \<Rightarrow> Inl e
           | Inr d \<Rightarrow> Inr (check(''timestamp'' \<mapsto> PDate d)))
      | Some v \<Rightarrow> Inr check)"

fun convert_timestamps :: "(string \<Rightarrow> datetime option) \<Rightarrow> dict list \<Rightarrow> exn + dict list" where
  "convert_timestamps other [] = Inr []"
| "convert_timestamps other (check # rest) =
     (case convert_timestamp other check of
        Inl e \<Rightarrow> Inl e
      | Inr c \<Rightarrow>
          (case convert_timestamps other rest of
             Inl e \<Rightarrow> Inl e
           | Inr cs \<Rightarrow> Inr (c # cs)))"

text \<open>
  \<^verbatim>\<open>response_model=List[StatusCheck]\<close>: each returned dictionary is validated as a
  \<^verbatim>\<open>StatusCheck\<close>. Extra keys are ignored; \<^verbatim>\<open>client_name\<close> is required; a missing
  \<^verbatim>\<open>id\<close> or \<^verbatim>\<open>timestamp\<close> takes its default factory. After the loop no timestamp
  is a string any more, so a string there counts as invalid like every other value that is
  not a datetime.
\<close>

definition validate_StatusCheck :: "string \<Rightarrow> datetime \<Rightarrow> dict \<Rightarrow> StatusCheck option" where
  "validate_StatusCheck default_id default_timestamp d =
     (case d ''client_name'' of
        Some (PStr cn) \<Rightarrow>
          (case (case d ''id'' of
                   None \<Rightarrow> Some default_id
                 | Some (PStr i) \<Rightarrow> Some i
                 | Some v \<Rightarrow> None) of
             None \<Rightarrow> None
           | Some i \<Rightarrow>
               (case (case d ''timestamp'' of
                        None \<Rightarrow> Some default_timestamp
                      | Some (PDate t) \<Rightarrow> Some t
                      | Some v \<Rightarrow> None) of
                  None \<Rightarrow> None
                | Some t \<Rightarrow> Some \<lparr>client_name = cn, id' = i, timestamp = t\<rparr>))
      | _ \<Rightarrow> None)"

fun validate_response :: "world \<Rightarrow> nat \<Rightarrow> dict list \<Rightarrow> StatusCheck list option" where
  "validate_response w k [] = Some []"
| "validate_response w k (d # ds) =
     (case validate_StatusCheck (uuid4 w k) (now_utc w k) d of
        None \<Rightarrow> None
      | Some x \<Rightarrow>
          (case validate_response w (Suc k) ds of
             None \<Rightarrow> None
           | Some xs \<Rightarrow> Some (x # xs)))"

definition get_status_checks :: "world \<Rightarrow> state \<Rightarrow> StatusCheck list outcome \<times> state" where
  "get_status_checks w s =
     (case find_to_list w 1000 (status_checks s) of
        Inl e \<Rightarrow> (Unhandled e, s)
      | Inr found \<Rightarrow>
          (case convert_timestamps (fromisoformat_other w) found of
             Inl e \<Rightarrow> (Unhandled e, s)
           | Inr checks \<Rightarrow>
               (case validate_response w 0 checks of
                  None \<Rightarrow> (Unhandled ResponseValidationError, s)
                | Some xs \<Rightarrow> (Returned xs, s))))"


section \<open>The contact form (lines 86-213)\<close>

subsection \<open>The f-string of lines 93-174\<close>

text \<open>
  The static text of the template, cut at the six interpolations. Doubled braces of the
  f-string stand for single ones. Nothing escapes the interpolated values.
\<close>

definition html_upto_name :: string where
  \<comment> \<open>lines 93-152: from the opening quotes to the value cell of the Name field\<close>
  \<open>html_upto_name =
     ''\<newline>'' @
     ''        <!DOCTYPE html>\<newline>'' @
     ''        <html>\<newline>'' @
     ''        <head>\<newline>'' @
     ''            <meta charset="utf-8">\<newline>'' @
     ''            <style>\<newline>'' @
     ''                body {\<newline>'' @
     ''                    font-family: Arial, sans-serif;\<newline>'' @
     ''                    line-height: 1.6;\<newline>'' @
     ''                    color: #333;\<newline>'' @
     ''                }\<newline>'' @
     ''                .container {\<newline>'' @
     ''                    max-width: 600px;\<newline>'' @
     ''                    margin: 0 auto;\<newline>'' @
     ''                    padding: 20px;\<newline>'' @
     ''                }\<newline>'' @
     ''                .header {\<newline>'' @
     ''                    background: linear-gradient(135deg, #8b5cf6 0%, #3b82f6 100%);\<newline>'' @
     ''                    color: white;\<newline>'' @
     ''                    padding: 30px;\<newline>'' @
     ''                    text-align: center;\<newline>'' @
     ''                    border-radius: 8px 8px 0 0;\<newline>'' @
     ''                }\<newline>'' @
     ''                .content {\<newline>'' @
     ''                    background: #f9fafb;\<newline>'' @
     ''                    padding: 30px;\<newline>'' @
     ''                    border-radius: 0 0 8px 8px;\<newline>'' @
     ''                }\<newline>'' @
     ''                .field {\<newline>'' @
     ''                    margin-bottom: 20px;\<newline>'' @
     ''                }\<newline>'' @
     ''                .field-label {\<newline>'' @
     ''                    font-weight: bold;\<newline>'' @
     ''                    color: #8b5cf6;\<newline>'' @
     ''                    margin-bottom: 5px;\<newline>'' @
     ''                }\<newline>'' @
     ''                .field-value {\<newline>'' @
     ''                    background: white;\<newline>'' @
     ''                    padding: 12px;\<newline>'' @
     ''                    border-left: 3px solid #8b5cf6;\<newline>'' @
     ''                    border-radius: 4px;\<newline>'' @
     ''                }\<newline>'' @
     ''                .footer {\<newline>'' @
     ''                    text-align: center;\<newline>'' @
     ''                    margin-top: 20px;\<newline>'' @
     ''                    color: #6b7280;\<newline>'' @
     ''                    font-size: 14px;\<newline>'' @
     ''                }\<newline>'' @
     ''            </style>\<newline>'' @
     ''        </head>\<newline>'' @
     ''        <body>\<newline>'' @
     ''            <div class="container">\<newline>'' @
     ''                <div class="header">\<newline>'' @
     ''                    <h1 style="margin: 0;">New Contact Form Submission</h1>\<newline>'' @
     ''                    <p style="margin: 10px 0 0 0;">INVERA Website</p>\<newline>'' @
     ''                </div>\<newline>'' @
     ''                <div class="content">\<newline>'' @
     ''                    <div class="field">\<newline>'' @
     ''                        <div class="field-label">Name:</div>\<newline>'' @
     ''                        <div class="field-value">''\<close>

definition html_name_to_email :: string where
  \<comment> \<open>lines 152-156: closes the Name field, opens the Email field\<close>
  \<open>html_name_to_email =
     ''</div>\<newline>'' @
     ''                    </div>\<newline>'' @
     ''                    <div class="field">\<newline>'' @
     ''                        <div class="field-label">Email:</div>\<newline>'' @
     ''                        <div class="field-value">''\<close>

definition html_email_to_company :: string where
  \<comment> \<open>lines 156-158: closes the Email field, up to the conditional expression\<close>
  \<open>html_email_to_company =
     ''</div>\<newline>'' @
     ''                    </div>\<newline>'' @
     ''                    ''\<close>

definition html_company_to_message :: string where
  \<comment> \<open>lines 161-164: after the conditional expression, opens the Message field\<close>
  \<open>html_company_to_message =
     ''\<newline>'' @
     ''                    <div class="field">\<newline>'' @
     ''                        <div class="field-label">Message:</div>\<newline>'' @
     ''                        <div class="field-value">''\<close>

definition html_message_to_received :: string where
  \<comment> \<open>lines 164-169: closes the Message field and the content, opens the footer\<close>
  \<open>html_message_to_received =
     ''</div>\<newline>'' @
     ''                    </div>\<newline>'' @
     ''                </div>\<newline>'' @
     ''                <div class="footer">\<newline>'' @
     ''                    <p>This email was sent from the INVERA contact form.</p>\<newline>'' @
     ''                    <p>Received at: ''\<close>

definition html_after_received :: string where
  \<comment> \<open>lines 169-174: closes the footer and the document\<close>
  \<open>html_after_received =
     ''</p>\<newline>'' @
     ''                </div>\<newline>'' @
     ''            </div>\<newline>'' @
     ''        </body>\<newline>'' @
     ''        </html>\<newline>'' @
     ''        ''\<close>

definition company_open :: string where
  \<comment> \<open>lines 158-160: the nested f-string up to the company value\<close>
  \<open>company_open =
     ''<div class="field">\<newline>'' @
     ''                        <div class="field-label">Company:</div>\<newline>'' @
     ''                        <div class="field-value">''\<close>

definition company_close :: string where
  \<comment> \<open>lines 160-161: the nested f-string after the company value\<close>
  \<open>company_close =
     ''</div>\<newline>'' @
     ''                    </div>''\<close>

text \<open>Lines 158-161: the company field, present when \<^verbatim>\<open>request.company\<close> is truthy.\<close>

definition company_field :: "string \<Rightarrow> string" where
  "company_field c = company_open @ c @ company_close"

definition html_content :: "ContactFormRequest \<Rightarrow> datetime \<Rightarrow> string" where
  "html_content request now =
     html_upto_name @ name request @
     html_name_to_email @ email request @
     html_email_to_company @
     (if company request \<noteq> [] then company_field (company request) else []) @
     html_company_to_message @ message request @
     html_message_to_received @ strftime_received now @
     html_after_received"

subsection \<open>The handler\<close>

definition send_params :: "config \<Rightarrow> world \<Rightarrow> ContactFormRequest \<Rightarrow> dict" where
  "send_params cfg w request =
     [''from'' \<mapsto> PStr (SENDER_EMAIL cfg),
      ''to'' \<mapsto> PList [opt_val (RECIPIENT_EMAIL cfg)],
      ''subject'' \<mapsto> PStr (''New Contact Form Submission from '' @ name request),
      ''html'' \<mapsto> PStr (html_content request (now_utc w 0))]"

definition submission_doc :: "world \<Rightarrow> ContactFormRequest \<Rightarrow> dict \<Rightarrow> dict" where
  "submission_doc w request email_response =
     [''id'' \<mapsto> PStr (uuid4 w 0),
      ''name'' \<mapsto> PStr (name request),
      ''email'' \<mapsto> PStr (email request),
      ''company'' \<mapsto> PStr (company request),
      ''message'' \<mapsto> PStr (message request),
      ''timestamp'' \<mapsto> PStr (isoformat (now_utc w 1)),
      ''email_id'' \<mapsto> dict_get email_response ''id'']"

definition success_response :: "dict \<Rightarrow> dict" where
  \<open>success_response email_response =
     [''status'' \<mapsto> PStr ''success'',
      ''message'' \<mapsto>
        PStr (''Your message has been sent successfully! We'' @ [CHR 0x27] @
              ''ll get back to you soon.''),
      ''email_id'' \<mapsto> dict_get email_response ''id'']\<close>

text \<open>The \<^verbatim>\<open>except Exception\<close> clause of lines 208-213.\<close>

definition on_exception :: "config \<Rightarrow> exn \<Rightarrow> state \<Rightarrow> dict outcome \<times> state" where
  "on_exception cfg e s =
     (HTTPException 500
        (''Failed to send message. Please try again later or contact us directly at '' @
         fstr (RECIPIENT_EMAIL cfg)),
      s\<lparr>logger := logger s @
           [(ERROR, ''Failed to send contact form email: '' @ str_exn e)]\<rparr>)"

definition send_contact_email ::
  "config \<Rightarrow> world \<Rightarrow> ContactFormRequest \<Rightarrow> state \<Rightarrow> dict outcome \<times> state" where
  "send_contact_email cfg w request s =
     (let params = send_params cfg w request;
          s1 = s\<lparr>resend_requests := resend_requests s @ [params]\<rparr>
      in case Emails_send w params of
           Inl e \<Rightarrow> on_exception cfg e s1
         | Inr email_response \<Rightarrow>
             (let s2 = s1\<lparr>logger := logger s1 @
                          [(INFO, ''Contact form email sent successfully to '' @
                                  fstr (RECIPIENT_EMAIL cfg))]\<rparr>;
                  submission = submission_doc w request email_response
              in case insert_one w submission (contact_submissions s2) of
                   Inl e \<Rightarrow> on_exception cfg e s2
                 | Inr docs \<Rightarrow>
                     (Returned (success_response email_response),
                      s2\<lparr>contact_submissions := docs\<rparr>)))"


section \<open>Request validation and the routes\<close>

definition validate_StatusCheckCreate :: "dict \<Rightarrow> string list + StatusCheckCreate" where
  "validate_StatusCheckCreate payload =
     (case payload ''client_name'' of
        Some (PStr cn) \<Rightarrow> Inr \<lparr>client_name = cn\<rparr>
      | _ \<Rightarrow> Inl [''client_name''])"

definition post_status :: "world \<Rightarrow> dict \<Rightarrow> state \<Rightarrow> StatusCheck outcome \<times> state" where
  "post_status w payload s =
     (case validate_StatusCheckCreate payload of
        Inl errs \<Rightarrow> (RequestValidationError errs, s)
      | Inr input \<Rightarrow> create_status_check w input s)"

text \<open>A required \<^verbatim>\<open>str\<close> field: present and a string.\<close>

definition str_field :: "dict \<Rightarrow> string \<Rightarrow> string option" where
  "str_field payload k = (case payload k of Some (PStr v) \<Rightarrow> Some v | _ \<Rightarrow> None)"

text \<open>\<^verbatim>\<open>company: str = ""\<close>: the default when absent, a string otherwise.\<close>

definition company_value :: "dict \<Rightarrow> string option" where
  "company_value payload =
     (case payload ''company'' of
        None \<Rightarrow> Some []
      | Some (PStr v) \<Rightarrow> Some v
      | Some v \<Rightarrow> None)"

text \<open>
  Modelled from the spec: the grammar behind \<^verbatim>\<open>EmailStr\<close> is not in the repository
  (it is the validator pydantic calls). The specification's words are: "must satisfy
  standard email-address grammar (local-part "@" domain); malformed input fails validation
  before reaching business logic". So an address is accepted when it splits at its last
  \<^verbatim>\<open>@\<close> into a local part and a domain that each pass their grammar; the two grammars
  are the world's \<open>local_part_ok\<close> and \<open>domain_ok\<close>. \<open>split_at_sign\<close> is that split.
\<close>

fun split_at_sign :: "string \<Rightarrow> (string \<times> string) option" where
  "split_at_sign [] = None"
| "split_at_sign (c # cs) =
     (case split_at_sign cs of
        Some (l, d) \<Rightarrow> Some (c # l, d)
      | None \<Rightarrow> if c = CHR ''@'' then Some ([], cs) else None)"

definition EmailStr :: "world \<Rightarrow> string \<Rightarrow> string option" where
  "EmailStr w v =
     (case split_at_sign v of
        None \<Rightarrow> None
      | Some (l, d) \<Rightarrow> if local_part_ok w l \<and> domain_ok w d then Some v else None)"

definition email_value :: "world \<Rightarrow> dict \<Rightarrow> string option" where
  "email_value w payload =
     (case str_field payload ''email'' of None \<Rightarrow> None | Some v \<Rightarrow> EmailStr w v)"

definition validate_ContactFormRequest ::
  "world \<Rightarrow> dict \<Rightarrow> string list + ContactFormRequest" where
  "validate_ContactFormRequest w payload =
     (case (str_field payload ''name'', email_value w payload,
            company_value payload, str_field payload ''message'') of
        (Some n, Some e, Some c, Some m) \<Rightarrow>
          Inr \<lparr>name = n, email = e, company = c, message = m\<rparr>
      | (n, e, c, m) \<Rightarrow>
          Inl ((if n = None then [''name''] else []) @
               (if e = None then [''email''] else []) @
               (if c = None then [''company''] else []) @
               (if m = None then [''message''] else [])))"

definition post_contact :: "config \<Rightarrow> world \<Rightarrow> dict \<Rightarrow> state \<Rightarrow> dict outcome \<times> state" where
  "post_contact cfg w payload s =
     (case validate_ContactFormRequest w payload of
        Inl errs \<Rightarrow> (RequestValidationError errs, s)
      | Inr request \<Rightarrow> send_contact_email cfg w request s)"


section \<open>Inputs for the worked examples\<close>

definition example_config :: config where
  "example_config =
     \<lparr>mongo_url = ''mongodb://localhost:27017'', db_name = ''test_database'',
      RESEND_API_KEY = Some ''re_test'', SENDER_EMAIL = ''onboarding@resend.dev'',
      RECIPIENT_EMAIL = Some ''owner@example.com'', allow_origins = [''*'']\<rparr>"

definition example_instant :: datetime where
  "example_instant =
     \<lparr>year = 2026, month = 3, day = 9, hour = 7, minute = 5, second = 0,
      microsecond = 120, utcoffset = None\<rparr>"

definition example_world :: "(dict \<Rightarrow> exn + dict) \<Rightarrow> exn option \<Rightarrow> world" where
  "example_world send fault =
     \<lparr>uuid4 = (\<lambda>k. ''0b6f4a52-8c1d-4e0a-9f57-3a2d6c1e7b90''),
      clock = (\<lambda>k. example_instant),
      Emails_send = send,
      insert_fault = fault,
      find_fault = None,
      ObjectId = 1,
      fromisoformat_other = (\<lambda>s. None),
      local_part_ok = (\<lambda>s. s \<noteq> []),
      domain_ok = (\<lambda>s. s \<noteq> [])\<rparr>"

definition example_request :: ContactFormRequest where
  "example_request = \<lparr>name = ''Jo'', email = ''jo@x.com'', company = [], message = ''hi''\<rparr>"

definition empty_state :: state where
  "empty_state =
     \<lparr>status_checks = [], contact_submissions = [], resend_requests = [], logger = []\<rparr>"

definition example_status_doc :: dict where
  "example_status_doc =
     [''id'' \<mapsto> PStr ''7c9e6679-7425-40de-944b-e07fc1f90ae7'',
      ''client_name'' \<mapsto> PStr ''acme-bot'',
      ''timestamp'' \<mapsto> PStr ''2026-03-09T07:05:00.000120+00:00'',
      ''_id'' \<mapsto> PObjectId 7]"

text \<open>
  The document that \<open>create_status_check\<close> leaves in the collection: \<open>status_doc\<close>
  of the new record, with the \<^verbatim>\<open>_id\<close> the driver adds.
\<close>

definition created_doc :: "world \<Rightarrow> StatusCheckCreate \<Rightarrow> dict" where
  "created_doc w input =
     [''id'' \<mapsto> PStr (uuid4 w 0), ''client_name'' \<mapsto> PStr (client_name input),
      ''timestamp'' \<mapsto> PStr (isoformat (now_utc w 0)),
      ''_id'' \<mapsto> PObjectId (ObjectId w)]"


section \<open>Writing and reading timestamps\<close>

lemma digit_val_digit_char: "n < 10 \<Longrightarrow> digit_val (digit_char n) = Some n"
  by (simp add: digit_val_def digit_char_def Let_def)

lemma read_digits_pad:
  "read_digits w acc (pad w n @ r) = Some (acc * 10 ^ w + n mod 10 ^ w, r)"
proof (induction w arbitrary: acc)
  case 0
  show ?case by simp
next
  case (Suc w)
  have split: "n mod (10 ^ w * 10) = 10 ^ w * (n div 10 ^ w mod 10) + n mod 10 ^ w"
    by (rule mod_mult2_eq)
  have "read_digits (Suc w) acc (pad (Suc w) n @ r)
          = Some ((acc * 10 + n div 10 ^ w mod 10) * 10 ^ w + n mod 10 ^ w, r)"
    by (simp add: digit_val_digit_char Suc.IH)
  also have "(acc * 10 + n div 10 ^ w mod 10) * 10 ^ w + n mod 10 ^ w
          = acc * 10 ^ Suc w + n mod 10 ^ Suc w"
    using split by (simp add: algebra_simps)
  finally show ?case .
qed

lemma read_digits_pad_exact:
  "n < 10 ^ w \<Longrightarrow> read_digits w 0 (pad w n @ r) = Some (n, r)"
  by (simp add: read_digits_pad)

lemma expect_Cons: "expect c (c # s) = Some s"
  by (simp add: expect_def)

lemma parse_offset_digits:
  assumes "h < 10 ^ 2" "m < 60" "sg = CHR ''+'' \<or> sg = CHR ''-''"
  shows "parse_offset (sg # pad 2 h @ '':'' @ pad 2 m)
           = Some (Some ((if sg = CHR ''-'' then - 1 else 1) * int (h * 60 + m)))"
proof -
  from assms(2) have m: "m < 10 ^ 2" by simp
  have rd1: "read_digits 2 0 (pad 2 h @ CHR '':'' # pad 2 m) = Some (h, CHR '':'' # pad 2 m)"
    by (rule read_digits_pad_exact [OF assms(1)])
  have rd2: "read_digits 2 0 (pad 2 m) = Some (m, [])"
    using read_digits_pad_exact [OF m, of "[]"] by simp
  show ?thesis
    using assms(2,3) unfolding parse_offset_def
    by (auto simp: rd1 rd2 expect_Cons simp del: of_nat_add of_nat_mult)
qed

lemma parse_offset_format:
  assumes "- 1440 < off" "off < 1440"
  shows "parse_offset (format_offset off) = Some (Some off)"
proof -
  let ?h = "nat \<bar>off\<bar> div 60" and ?m = "nat \<bar>off\<bar> mod 60"
  have h: "?h < 10 ^ 2" using assms by auto
  have m60: "?m < 60" by simp
  have recombine: "int (?h * 60 + ?m) = \<bar>off\<bar>" by simp
  have fmt: "format_offset off =
      (if off < 0 then CHR ''-'' else CHR ''+'') # pad 2 ?h @ '':'' @ pad 2 ?m"
    by (simp add: format_offset_def)
  have "parse_offset (format_offset off)
          = Some (Some ((if off < 0 then - 1 else 1) * int (?h * 60 + ?m)))"
    unfolding fmt
    using parse_offset_digits [OF h m60, of "if off < 0 then CHR ''-'' else CHR ''+''"]
    by (simp split: if_splits)
  then show ?thesis unfolding recombine by (simp split: if_splits)
qed

lemma format_offset_head:
  "\<exists>c r. format_offset off = c # r \<and> c \<noteq> CHR ''.''"
  by (simp add: format_offset_def)

lemma parse_fraction_format:
  assumes "us < 10 ^ 6" and "tzs = [] \<or> (\<exists>c r. tzs = c # r \<and> c \<noteq> CHR ''.'')"
  shows "parse_fraction ((if us = 0 then [] else ''.'' @ pad 6 us) @ tzs) = Some (us, tzs)"
proof (cases "us = 0")
  case True
  with assms(2) show ?thesis by (auto simp: parse_fraction_def)
next
  case False
  then show ?thesis
    using read_digits_pad_exact [OF assms(1), of tzs] by (simp add: parse_fraction_def)
qed

lemma parse_isoformat_isoformat:
  assumes v: "valid_datetime d"
  shows "parse_isoformat (isoformat d) = Some d"
proof -
  define tzs where "tzs = (case utcoffset d of None \<Rightarrow> [] | Some off \<Rightarrow> format_offset off)"
  have y: "year d < 10 ^ 4" and mo: "month d < 10 ^ 2" and hh: "hour d < 10 ^ 2"
    and mi: "minute d < 10 ^ 2" and ss: "second d < 10 ^ 2" and us: "microsecond d < 10 ^ 6"
    using v by (simp_all add: valid_datetime_def)
  have "day d \<le> 31"
    using v by (simp add: valid_datetime_def days_in_month_def split: if_splits)
  then have dd: "day d < 10 ^ 2" by simp
  have tz: "parse_offset tzs = Some (utcoffset d)"
  proof (cases "utcoffset d")
    case None
    then show ?thesis by (simp add: tzs_def parse_offset_def)
  next
    case (Some off)
    with v have "- 1440 < off" "off < 1440" by (simp_all add: valid_datetime_def)
    with Some show ?thesis by (simp add: tzs_def parse_offset_format)
  qed
  have tzs_head: "tzs = [] \<or> (\<exists>c r. tzs = c # r \<and> c \<noteq> CHR ''.'')"
    using format_offset_head by (cases "utcoffset d") (simp_all add: tzs_def)
  have fr: "parse_fraction
              ((if microsecond d = 0 then [] else ''.'' @ pad 6 (microsecond d)) @ tzs)
              = Some (microsecond d, tzs)"
    by (rule parse_fraction_format [OF us tzs_head])
  have iso: "isoformat d =
     pad 4 (year d) @ CHR ''-'' # pad 2 (month d) @ CHR ''-'' # pad 2 (day d) @ CHR ''T'' #
     pad 2 (hour d) @ CHR '':'' # pad 2 (minute d) @ CHR '':'' # pad 2 (second d) @
     ((if microsecond d = 0 then [] else ''.'' @ pad 6 (microsecond d)) @ tzs)"
    by (simp add: isoformat_def tzs_def)
  have rebuild: "\<lparr>year = year d, month = month d, day = day d, hour = hour d,
      minute = minute d, second = second d, microsecond = microsecond d,
      utcoffset = utcoffset d\<rparr> = d"
    by simp
  show ?thesis
    unfolding iso parse_isoformat_def
    by (simp only: read_digits_pad_exact [OF y] read_digits_pad_exact [OF mo]
        read_digits_pad_exact [OF dd] read_digits_pad_exact [OF hh] read_digits_pad_exact [OF mi]
        read_digits_pad_exact [OF ss] expect_Cons fr tz rebuild v
        bind.bind_lunit prod.case Let_def if_True)
qed

lemma fromisoformat_isoformat:
  "valid_datetime d \<Longrightarrow> fromisoformat other (isoformat d) = Inr d"
  by (simp add: fromisoformat_def parse_isoformat_isoformat)

lemma valid_now_utc: "valid_datetime (clock w k) \<Longrightarrow> valid_datetime (now_utc w k)"
  by (simp add: valid_datetime_def now_utc_def)

lemma format_offset_utc: "format_offset 0 = ''+00:00''"
  by code_simp

lemma isoformat_now_utc_suffix: "suffix ''+00:00'' (isoformat (now_utc w k))"
proof -
  have "isoformat (now_utc w k) =
      (pad 4 (year (clock w k)) @ ''-'' @ pad 2 (month (clock w k)) @ ''-'' @
       pad 2 (day (clock w k)) @ ''T'' @ pad 2 (hour (clock w k)) @ '':'' @
       pad 2 (minute (clock w k)) @ '':'' @ pad 2 (second (clock w k)) @
       (if microsecond (clock w k) = 0 then [] else ''.'' @ pad 6 (microsecond (clock w k)))) @
      ''+00:00''"
    unfolding isoformat_def now_utc_def by (simp add: format_offset_utc)
  then show ?thesis by (metis suffixI)
qed

lemma digit_char_values:
  "digit_char 0 = CHR ''0''" "digit_char 1 = CHR ''1''" "digit_char 2 = CHR ''2''"
  "digit_char 3 = CHR ''3''" "digit_char 4 = CHR ''4''" "digit_char 5 = CHR ''5''"
  "digit_char 6 = CHR ''6''" "digit_char 7 = CHR ''7''" "digit_char 8 = CHR ''8''"
  "digit_char 9 = CHR ''9''" "digit_char (Suc 0) = CHR ''1''"
  by code_simp+

lemma pad_2: "pad 2 n = [digit_char (n div 10 mod 10), digit_char (n mod 10)]"
proof -
  have "pad 2 n = pad (Suc (Suc 0)) n" by (rule arg_cong [where f = "\<lambda>w. pad w n"]) simp
  then show ?thesis by simp
qed

lemma pad_4:
  "pad 4 n = [digit_char (n div 1000 mod 10), digit_char (n div 100 mod 10),
              digit_char (n div 10 mod 10), digit_char (n mod 10)]"
proof -
  have "pad 4 n = pad (Suc (Suc (Suc (Suc 0)))) n"
    by (rule arg_cong [where f = "\<lambda>w. pad w n"]) simp
  then show ?thesis by simp
qed

lemma pad_6:
  "pad 6 n = [digit_char (n div 100000 mod 10), digit_char (n div 10000 mod 10),
              digit_char (n div 1000 mod 10), digit_char (n div 100 mod 10),
              digit_char (n div 10 mod 10), digit_char (n mod 10)]"
proof -
  have "pad 6 n = pad (Suc (Suc (Suc (Suc (Suc (Suc 0)))))) n"
    by (rule arg_cong [where f = "\<lambda>w. pad w n"]) simp
  then show ?thesis by simp
qed

lemma isoformat_example_instant:
  "isoformat (example_instant\<lparr>utcoffset := Some 0\<rparr>) = ''2026-03-09T07:05:00.000120+00:00''"
  by (simp add: isoformat_def format_offset_def example_instant_def pad_2 pad_4 pad_6
      digit_char_values del: pad.simps)

lemma parse_example_timestamp:
  "parse_isoformat ''2026-03-09T07:05:00.000120+00:00'' =
     Some (example_instant\<lparr>utcoffset := Some 0\<rparr>)"
proof -
  have "valid_datetime (example_instant\<lparr>utcoffset := Some 0\<rparr>)"
    by (simp add: example_instant_def valid_datetime_def days_in_month_def)
  from parse_isoformat_isoformat [OF this] show ?thesis
    by (simp only: isoformat_example_instant)
qed


section \<open>The listing, document by document\<close>

lemma convert_timestamps_length:
  "convert_timestamps other cs = Inr cs' \<Longrightarrow> length cs' = length cs"
  by (induction cs arbitrary: cs') (auto split: sum.splits)

lemma validate_response_length:
  "validate_response w k ds = Some xs \<Longrightarrow> length xs = length ds"
  by (induction ds arbitrary: k xs) (auto split: option.splits)

lemma convert_timestamps_nth:
  "convert_timestamps other cs = Inr cs' \<Longrightarrow> i < length cs \<Longrightarrow>
     convert_timestamp other (cs ! i) = Inr (cs' ! i)"
proof (induction cs arbitrary: cs' i)
  case Nil
  then show ?case by simp
next
  case (Cons c cs)
  then show ?case by (cases i) (auto split: sum.splits)
qed

lemma validate_response_nth:
  "validate_response w k ds = Some xs \<Longrightarrow> i < length ds \<Longrightarrow>
     validate_StatusCheck (uuid4 w (k + i)) (now_utc w (k + i)) (ds ! i) = Some (xs ! i)"
proof (induction ds arbitrary: k xs i)
  case Nil
  then show ?case by simp
next
  case (Cons d ds)
  from Cons.prems(1) obtain x xs' where
    x: "validate_StatusCheck (uuid4 w k) (now_utc w k) d = Some x" and
    r: "validate_response w (Suc k) ds = Some xs'" and xs: "xs = x # xs'"
    by (auto split: option.splits)
  show ?case
  proof (cases i)
    case 0
    with x xs show ?thesis by simp
  next
    case (Suc j)
    with Cons.prems(2) have "j < length ds" by simp
    from Cons.IH [OF r this] Suc xs show ?thesis by simp
  qed
qed

lemma convert_timestamps_replicate:
  "convert_timestamp other d = Inr d' \<Longrightarrow>
     convert_timestamps other (replicate n d) = Inr (replicate n d')"
  by (induction n) simp_all

lemma validate_response_replicate:
  "(\<And>j. validate_StatusCheck (uuid4 w j) (now_utc w j) d = Some x) \<Longrightarrow>
     validate_response w k (replicate n d) = Some (replicate n x)"
  by (induction n arbitrary: k) simp_all

lemma convert_timestamps_append:
  "convert_timestamps other (as @ bs) =
     (case convert_timestamps other as of
        Inl e \<Rightarrow> Inl e
      | Inr as' \<Rightarrow>
          (case convert_timestamps other bs of
             Inl e \<Rightarrow> Inl e
           | Inr bs' \<Rightarrow> Inr (as' @ bs')))"
  by (induction as) (auto split: sum.splits)

lemma validate_response_append:
  "validate_response w k (as @ bs) =
     (case validate_response w k as of
        None \<Rightarrow> None
      | Some xs \<Rightarrow>
          (case validate_response w (k + length as) bs of
             None \<Rightarrow> None
           | Some ys \<Rightarrow> Some (xs @ ys)))"
  by (induction as arbitrary: k) (auto split: option.splits)

lemma create_status_check_ok:
  "insert_fault w = None \<Longrightarrow>
     create_status_check w input s =
       (Returned \<lparr>client_name = client_name input, id' = uuid4 w 0, timestamp = now_utc w 0\<rparr>,
        s\<lparr>status_checks := status_checks s @ [created_doc w input]\<rparr>)"
  by (simp add: create_status_check_def status_doc_def insert_one_def Let_def created_doc_def)

lemma convert_created_doc:
  assumes "valid_datetime (clock w 0)"
  shows "convert_timestamp other ((created_doc w input)(''_id'' := None)) =
           Inr ((created_doc w input)(''_id'' := None, ''timestamp'' \<mapsto> PDate (now_utc w 0)))"
  using fromisoformat_isoformat [OF valid_now_utc [OF assms], of other]
  by (simp add: convert_timestamp_def created_doc_def)

lemma validate_created_doc:
  "validate_StatusCheck a b
     ((created_doc w input)(''_id'' := None, ''timestamp'' \<mapsto> PDate (now_utc w 0))) =
   Some \<lparr>client_name = client_name input, id' = uuid4 w 0, timestamp = now_utc w 0\<rparr>"
  by (simp add: validate_StatusCheck_def created_doc_def)

lemma listing_after_create:
  assumes clk: "valid_datetime (clock w 0)" and ins: "insert_fault w = None"
    and n: "length (status_checks s) < 1000"
    and before: "get_status_checks w' s = (Returned ys, s)"
  shows "get_status_checks w' (snd (create_status_check w input s)) =
           (Returned (ys @ [\<lparr>client_name = client_name input, id' = uuid4 w 0,
                               timestamp = now_utc w 0\<rparr>]),
            snd (create_status_check w input s))"
proof -
  let ?D = "created_doc w input"
  let ?P = "\<lambda>d::dict. d(''_id'' := None)"
  note created = create_status_check_ok [OF ins, of input s]
  from before obtain found checks where
    ff: "find_fault w' = None" and
    f: "found = map ?P (take 1000 (status_checks s))" and
    c: "convert_timestamps (fromisoformat_other w') found = Inr checks" and
    v: "validate_response w' 0 checks = Some ys"
    by (auto simp: get_status_checks_def find_to_list_def split: sum.splits option.splits)
  from n f have f': "map ?P (take 1000 (status_checks s @ [?D])) = found @ [?P ?D]"
    by simp
  have c': "convert_timestamps (fromisoformat_other w') (found @ [?P ?D]) =
              Inr (checks @ [?D(''_id'' := None, ''timestamp'' \<mapsto> PDate (now_utc w 0))])"
    by (simp add: convert_timestamps_append c convert_created_doc [OF clk])
  have v': "validate_response w' 0
              (checks @ [?D(''_id'' := None, ''timestamp'' \<mapsto> PDate (now_utc w 0))]) =
            Some (ys @ [\<lparr>client_name = client_name input, id' = uuid4 w 0,
                          timestamp = now_utc w 0\<rparr>])"
    by (simp add: validate_response_append v validate_created_doc)
  have "find_to_list w' 1000 (status_checks s @ [?D]) = Inr (found @ [?P ?D])"
    unfolding find_to_list_def ff f' by simp
  then have "get_status_checks w' (s\<lparr>status_checks := status_checks s @ [?D]\<rparr>) =
      (Returned (ys @ [\<lparr>client_name = client_name input, id' = uuid4 w 0,
                          timestamp = now_utc w 0\<rparr>]),
       s\<lparr>status_checks := status_checks s @ [?D]\<rparr>)"
    by (simp add: get_status_checks_def c' v')
  then show ?thesis
    unfolding created by simp
qed


section \<open>Searching the email body\<close>














section \<open>Validation\<close>

lemma split_at_sign_None: "CHR ''@'' \<notin> set v \<Longrightarrow> split_at_sign v = None"
  by (induction v) auto


section \<open>The contact form: dispatch and persistence\<close>

text \<open>
  Claim C1. When the send call raises, whatever the exception, the handler ends in
  \<^verbatim>\<open>HTTPException(500)\<close> whose detail names the configured recipient, the only
  changes to the state are the recorded send request and one \<^verbatim>\<open>ERROR\<close> log record
  carrying \<^verbatim>\<open>str(e)\<close>, and both collections stay as they were. Conversely the
  contact submissions change only when the send call returned.
\<close>

theorem dispatch_failure_not_persisted:
  "(Emails_send w (send_params cfg w request) = Inl e \<longrightarrow>
      send_contact_email cfg w request s =
        (HTTPException 500
           (''Failed to send message. Please try again later or contact us directly at '' @
            fstr (RECIPIENT_EMAIL cfg)),
         s\<lparr>resend_requests := resend_requests s @ [send_params cfg w request],
           logger := logger s @
             [(ERROR, ''Failed to send contact form email: '' @ str_exn e)]\<rparr>)) \<and>
   (contact_submissions (snd (send_contact_email cfg w request s)) \<noteq> contact_submissions s \<longrightarrow>
      (\<exists>r. Emails_send w (send_params cfg w request) = Inr r))"
  by (auto simp: send_contact_email_def on_exception_def Let_def insert_one_def
      split: sum.splits option.splits)

theorem dispatch_failure_not_persisted_witness:
  "send_contact_email example_config
     (example_world (\<lambda>p. Inl (ResendError ''API key is invalid'')) None)
     example_request empty_state =
     (HTTPException 500
        ''Failed to send message. Please try again later or contact us directly at owner@example.com'',
      empty_state\<lparr>resend_requests :=
          [send_params example_config
             (example_world (\<lambda>p. Inl (ResendError ''API key is invalid'')) None)
             example_request],
        logger := [(ERROR, ''Failed to send contact form email: API key is invalid'')]\<rparr>) \<and>
   contact_submissions (snd (send_contact_email example_config
     (example_world (\<lambda>p. Inr [''id'' \<mapsto> PStr ''msg_123'']) None)
     example_request empty_state)) \<noteq> contact_submissions empty_state \<and>
   Emails_send (example_world (\<lambda>p. Inr [''id'' \<mapsto> PStr ''msg_123'']) None)
     (send_params example_config (example_world (\<lambda>p. Inr [''id'' \<mapsto> PStr ''msg_123'']) None)
        example_request) = Inr [''id'' \<mapsto> PStr ''msg_123'']"
proof -
  let ?wf = "example_world (\<lambda>p. Inl (ResendError ''API key is invalid'')) None"
  let ?wk = "example_world (\<lambda>p. Inr [''id'' \<mapsto> PStr ''msg_123'']) None"
  have fails: "Emails_send ?wf (send_params example_config ?wf example_request)
                 = Inl (ResendError ''API key is invalid'')"
    by (simp add: example_world_def)
  have changed: "contact_submissions (snd (send_contact_email example_config ?wk
                   example_request empty_state)) \<noteq> contact_submissions empty_state"
    by (simp add: send_contact_email_def Let_def insert_one_def example_world_def empty_state_def)
  have sent: "Emails_send ?wk (send_params example_config ?wk example_request)
                = Inr [''id'' \<mapsto> PStr ''msg_123'']"
    by (simp add: example_world_def)
  from dispatch_failure_not_persisted [of ?wf example_config example_request
      "ResendError ''API key is invalid''" empty_state] fails
  have "send_contact_email example_config ?wf example_request empty_state =
     (HTTPException 500
        (''Failed to send message. Please try again later or contact us directly at '' @
            fstr (RECIPIENT_EMAIL example_config)),
      empty_state\<lparr>resend_requests := resend_requests empty_state @ [send_params example_config ?wf example_request],
        logger := logger empty_state @ [(ERROR, ''Failed to send contact form email: '' @ str_exn (ResendError ''API key is invalid''))]\<rparr>)"
    by blast
  then have "send_contact_email example_config ?wf example_request empty_state =
     (HTTPException 500
        ''Failed to send message. Please try again later or contact us directly at owner@example.com'',
      empty_state\<lparr>resend_requests := [send_params example_config ?wf example_request],
        logger := [(ERROR, ''Failed to send contact form email: API key is invalid'')]\<rparr>)"
    by (simp add: example_config_def fstr_def empty_state_def)
  with changed sent show ?thesis by blast
qed

text \<open>
  Claim C2, as amended. When the send call returns a response and the store accepts the
  insert, the handler returns the success dictionary with \<^verbatim>\<open>email_id\<close> taken from
  the response by \<^verbatim>\<open>.get("id")\<close> (so \<^verbatim>\<open>None\<close> without that key), and the
  collection grows by exactly the submission document, which carries the same
  \<^verbatim>\<open>email_id\<close>.
\<close>

theorem dispatch_success_persists:
  assumes "Emails_send w (send_params cfg w request) = Inr email_response"
    and "insert_fault w = None"
  shows "fst (send_contact_email cfg w request s) = Returned (success_response email_response) \<and>
         success_response email_response ''status'' = Some (PStr ''success'') \<and>
         success_response email_response ''email_id'' = Some (dict_get email_response ''id'') \<and>
         contact_submissions (snd (send_contact_email cfg w request s)) =
           contact_submissions s @
             [(submission_doc w request email_response)(''_id'' \<mapsto> PObjectId (ObjectId w))] \<and>
         submission_doc w request email_response ''email_id'' =
           Some (dict_get email_response ''id'') \<and>
         dict_get email_response ''id'' =
           (case email_response ''id'' of None \<Rightarrow> PNone | Some m \<Rightarrow> m)"
  using assms
  by (simp add: send_contact_email_def Let_def insert_one_def success_response_def
      submission_doc_def dict_get_def)

theorem dispatch_success_persists_witness:
  "fst (send_contact_email example_config
          (example_world (\<lambda>p. Inr [''id'' \<mapsto> PStr ''msg_123'']) None)
          example_request empty_state) =
     Returned (success_response [''id'' \<mapsto> PStr ''msg_123'']) \<and>
   success_response [''id'' \<mapsto> PStr ''msg_123''] ''email_id'' = Some (PStr ''msg_123'') \<and>
   map (\<lambda>d. d ''email_id'')
     (contact_submissions
        (snd (send_contact_email example_config
                (example_world (\<lambda>p. Inr [''id'' \<mapsto> PStr ''msg_123'']) None)
                example_request empty_state))) = [Some (PStr ''msg_123'')] \<and>
   map (\<lambda>d. d ''email_id'')
     (contact_submissions
        (snd (send_contact_email example_config
                (example_world (\<lambda>p. Inr Map.empty) None)
                example_request empty_state))) = [Some PNone]"
proof -
  let ?r = "[''id'' \<mapsto> PStr ''msg_123'']"
  let ?w = "example_world (\<lambda>p. Inr ?r) None"
  let ?v = "example_world (\<lambda>p. Inr Map.empty) None"
  have sent: "Emails_send ?w (send_params example_config ?w example_request) = Inr ?r"
    and up: "insert_fault ?w = None"
    by (simp_all add: example_world_def)
  have sent': "Emails_send ?v (send_params example_config ?v example_request) = Inr Map.empty"
    and up': "insert_fault ?v = None"
    by (simp_all add: example_world_def)
  note a = dispatch_success_persists [OF sent up, of empty_state]
  note b = dispatch_success_persists [OF sent' up', of empty_state]
  from a have 1: "fst (send_contact_email example_config ?w example_request empty_state)
                    = Returned (success_response ?r)"
    by blast
  from a have 2: "success_response ?r ''email_id'' = Some (PStr ''msg_123'')"
    by (simp add: dict_get_def)
  from a have 3: "map (\<lambda>d. d ''email_id'')
     (contact_submissions (snd (send_contact_email example_config ?w example_request empty_state)))
       = [Some (PStr ''msg_123'')]"
    by (simp add: empty_state_def dict_get_def)
  from b have 4: "map (\<lambda>d. d ''email_id'')
     (contact_submissions (snd (send_contact_email example_config ?v example_request empty_state)))
       = [Some PNone]"
    by (simp add: empty_state_def dict_get_def)
  from 1 2 3 4 show ?thesis by blast
qed

text \<open>
  The claim without the condition on the store does not hold: the insert of line 200
  stands inside the \<^verbatim>\<open>try\<close>, so after a send that succeeded with id
  \<^verbatim>\<open>msg_123\<close> a store that raises leads to the 500 answer and to no document.
\<close>

theorem dispatch_success_store_failure_counterexample:
  "Emails_send (example_world (\<lambda>p. Inr [''id'' \<mapsto> PStr ''msg_123''])
                  (Some (PyMongoError ''connection refused'')))
     (send_params example_config
        (example_world (\<lambda>p. Inr [''id'' \<mapsto> PStr ''msg_123''])
           (Some (PyMongoError ''connection refused'')))
        example_request) = Inr [''id'' \<mapsto> PStr ''msg_123''] \<and>
   fst (send_contact_email example_config
          (example_world (\<lambda>p. Inr [''id'' \<mapsto> PStr ''msg_123''])
             (Some (PyMongoError ''connection refused'')))
          example_request empty_state) =
     HTTPException 500
       ''Failed to send message. Please try again later or contact us directly at owner@example.com'' \<and>
   contact_submissions
     (snd (send_contact_email example_config
             (example_world (\<lambda>p. Inr [''id'' \<mapsto> PStr ''msg_123''])
                (Some (PyMongoError ''connection refused'')))
             example_request empty_state)) = []"
  by (simp add: send_contact_email_def on_exception_def Let_def insert_one_def
      example_world_def example_config_def empty_state_def fstr_def)

text \<open>
  Claim C3, as amended. A failure of the insert after a successful send does not escape
  the handler: the \<^verbatim>\<open>except Exception\<close> clause catches it like a failure of the send.
  The answer is the same \<^verbatim>\<open>HTTPException(500)\<close> with the same detail, the log holds
  the \<^verbatim>\<open>INFO\<close> record of the send followed by the \<^verbatim>\<open>ERROR\<close> record with the
  store's message, and the collections are unchanged although the email has gone out.
\<close>

theorem store_failure_handled_as_dispatch_failure:
  assumes "Emails_send w (send_params cfg w request) = Inr email_response"
    and "insert_fault w = Some e"
  shows "send_contact_email cfg w request s =
           (HTTPException 500
              (''Failed to send message. Please try again later or contact us directly at '' @
               fstr (RECIPIENT_EMAIL cfg)),
            s\<lparr>resend_requests := resend_requests s @ [send_params cfg w request],
              logger := logger s @
                [(INFO, ''Contact form email sent successfully to '' @
                        fstr (RECIPIENT_EMAIL cfg)),
                 (ERROR, ''Failed to send contact form email: '' @ str_exn e)]\<rparr>)"
  using assms
  by (simp add: send_contact_email_def on_exception_def Let_def insert_one_def)

theorem store_failure_handled_as_dispatch_failure_witness:
  "send_contact_email example_config
     (example_world (\<lambda>p. Inr [''id'' \<mapsto> PStr ''e1'']) (Some (PyMongoError ''timed out'')))
     example_request empty_state =
     (HTTPException 500
        ''Failed to send message. Please try again later or contact us directly at owner@example.com'',
      empty_state\<lparr>resend_requests :=
          [send_params example_config
             (example_world (\<lambda>p. Inr [''id'' \<mapsto> PStr ''e1''])
                (Some (PyMongoError ''timed out'')))
             example_request],
        logger := [(INFO, ''Contact form email sent successfully to owner@example.com''),
                   (ERROR, ''Failed to send contact form email: timed out'')]\<rparr>)"
proof -
  let ?w = "example_world (\<lambda>p. Inr [''id'' \<mapsto> PStr ''e1'']) (Some (PyMongoError ''timed out''))"
  have sent: "Emails_send ?w (send_params example_config ?w example_request)
                = Inr [''id'' \<mapsto> PStr ''e1'']"
    and down: "insert_fault ?w = Some (PyMongoError ''timed out'')"
    by (simp_all add: example_world_def)
  show ?thesis
    using store_failure_handled_as_dispatch_failure [OF sent down, of empty_state]
    by (simp add: example_config_def fstr_def empty_state_def)
qed

text \<open>
  Against the claim as stated: with the same message in the exception, the answer to a
  failed insert equals the answer to a failed send, and it is not the escaping exception.
\<close>

theorem store_failure_same_response_counterexample:
  "fst (send_contact_email example_config
          (example_world (\<lambda>p. Inr [''id'' \<mapsto> PStr ''e1''])
             (Some (PyMongoError ''No servers available'')))
          example_request empty_state) =
   fst (send_contact_email example_config
          (example_world (\<lambda>p. Inl (ResendError ''No servers available'')) None)
          example_request empty_state) \<and>
   fst (send_contact_email example_config
          (example_world (\<lambda>p. Inr [''id'' \<mapsto> PStr ''e1''])
             (Some (PyMongoError ''No servers available'')))
          example_request empty_state) \<noteq> Unhandled (PyMongoError ''No servers available'') \<and>
   logger (snd (send_contact_email example_config
          (example_world (\<lambda>p. Inr [''id'' \<mapsto> PStr ''e1''])
             (Some (PyMongoError ''No servers available'')))
          example_request empty_state)) =
     [(INFO, ''Contact form email sent successfully to owner@example.com''),
      (ERROR, ''Failed to send contact form email: No servers available'')]"
  by (simp add: send_contact_email_def on_exception_def Let_def insert_one_def
      example_world_def example_config_def empty_state_def fstr_def)


section \<open>Startup\<close>

text \<open>
  Claim C4, as amended. The import fails exactly on a missing \<^verbatim>\<open>MONGO_URL\<close> or
  \<^verbatim>\<open>DB_NAME\<close> (or when the driver rejects their values). With both present and
  accepted it succeeds whatever else is set: the recipient address and the API key are
  read with \<^verbatim>\<open>os.environ.get\<close> and are \<^verbatim>\<open>None\<close> when absent, and the sender
  address falls back to its default.
\<close>

theorem startup_required_values:
  "(environ ''MONGO_URL'' = None \<longrightarrow>
      startup motor_client get_database environ = Inl (KeyError ''MONGO_URL'')) \<and>
   (environ ''MONGO_URL'' = Some url \<and> motor_client url = None \<and> environ ''DB_NAME'' = None \<longrightarrow>
      startup motor_client get_database environ = Inl (KeyError ''DB_NAME'')) \<and>
   (environ ''MONGO_URL'' = Some url \<and> motor_client url = None \<and>
    environ ''DB_NAME'' = Some dbn \<and> get_database dbn = None \<longrightarrow>
      (\<exists>cfg. startup motor_client get_database environ = Inr cfg \<and>
         mongo_url cfg = url \<and> db_name cfg = dbn \<and>
         RESEND_API_KEY cfg = environ ''RESEND_API_KEY'' \<and>
         RECIPIENT_EMAIL cfg = environ ''RECIPIENT_EMAIL'' \<and>
         SENDER_EMAIL cfg =
           (case environ ''SENDER_EMAIL'' of None \<Rightarrow> ''onboarding@resend.dev'' | Some v \<Rightarrow> v)))"
  by (simp add: startup_def)

theorem startup_required_values_witness:
  "startup (\<lambda>url. None) (\<lambda>dbn. None) [''DB_NAME'' \<mapsto> ''test_database'']
     = Inl (KeyError ''MONGO_URL'') \<and>
   startup (\<lambda>url. None) (\<lambda>dbn. None) [''MONGO_URL'' \<mapsto> ''mongodb://db:27017'']
     = Inl (KeyError ''DB_NAME'') \<and>
   (\<exists>cfg. startup (\<lambda>url. None) (\<lambda>dbn. None)
            [''MONGO_URL'' \<mapsto> ''mongodb://db:27017'', ''DB_NAME'' \<mapsto> ''invera'',
             ''SENDER_EMAIL'' \<mapsto> ''site@invera.example''] = Inr cfg \<and>
          RECIPIENT_EMAIL cfg = None \<and> RESEND_API_KEY cfg = None \<and>
          SENDER_EMAIL cfg = ''site@invera.example'')"
proof -
  let ?mc = "\<lambda>url::string. None :: exn option"
  let ?e1 = "[''DB_NAME'' \<mapsto> ''test_database'']"
  let ?e2 = "[''MONGO_URL'' \<mapsto> ''mongodb://db:27017'']"
  let ?e3 = "[''MONGO_URL'' \<mapsto> ''mongodb://db:27017'', ''DB_NAME'' \<mapsto> ''invera'',
              ''SENDER_EMAIL'' \<mapsto> ''site@invera.example'']"
  have 1: "startup ?mc ?mc ?e1 = Inl (KeyError ''MONGO_URL'')"
    using startup_required_values [of ?e1 ?mc ?mc] by simp
  have 2: "startup ?mc ?mc ?e2 = Inl (KeyError ''DB_NAME'')"
    using startup_required_values [of ?e2 ?mc ?mc "''mongodb://db:27017''"] by simp
  have 3: "\<exists>cfg. startup ?mc ?mc ?e3 = Inr cfg \<and> RECIPIENT_EMAIL cfg = None \<and>
             RESEND_API_KEY cfg = None \<and> SENDER_EMAIL cfg = ''site@invera.example''"
    using startup_required_values [of ?e3 ?mc ?mc "''mongodb://db:27017''" "''invera''"]
    by fastforce
  from 1 2 3 show ?thesis by blast
qed

text \<open>
  Against the claim as stated: an environment with no recipient address (and no API key)
  starts the process.
\<close>

theorem startup_without_recipient_counterexample:
  "startup (\<lambda>url. None) (\<lambda>dbn. None)
     [''MONGO_URL'' \<mapsto> ''mongodb://localhost:27017'', ''DB_NAME'' \<mapsto> ''test_database''] =
   Inr \<lparr>mongo_url = ''mongodb://localhost:27017'', db_name = ''test_database'',
        RESEND_API_KEY = None, SENDER_EMAIL = ''onboarding@resend.dev'',
        RECIPIENT_EMAIL = None, allow_origins = [''*'']\<rparr>"
  by (simp add: startup_def)


section \<open>Status checks\<close>

text \<open>
  Claim C5. A record written by \<^verbatim>\<open>create\<close> into a collection of fewer than 1000
  documents and then retrieved by \<^verbatim>\<open>list\<close> is, field for field, the record that
  \<^verbatim>\<open>create\<close> returned: the same \<^verbatim>\<open>client_name\<close>, and the timestamp read back
  from its ISO text equal to the one returned, down to the microsecond. The lemma
  \<open>listing_after_create\<close> above shows that the listing does return when it did before
  the record was written.
\<close>

theorem create_then_list_roundtrip:
  assumes clk: "valid_datetime (clock w 0)" and ins: "insert_fault w = None"
    and n: "length (status_checks s) < 1000"
    and listed: "get_status_checks w' (snd (create_status_check w input s)) = (Returned xs, s')"
  shows "length (status_checks s) < length xs \<and>
         fst (create_status_check w input s) = Returned (xs ! length (status_checks s)) \<and>
         client_name (xs ! length (status_checks s)) = client_name input \<and>
         timestamp (xs ! length (status_checks s)) = now_utc w 0"
proof -
  let ?n = "length (status_checks s)"
  let ?obj = "\<lparr>client_name = client_name input, id' = uuid4 w 0, timestamp = now_utc w 0\<rparr>"
  let ?D = "created_doc w input"
  note created = create_status_check_ok [OF ins, of input s]
  from listed created obtain found checks where
    f: "find_to_list w' 1000 (status_checks s @ [?D]) = Inr found" and
    c: "convert_timestamps (fromisoformat_other w') found = Inr checks" and
    v: "validate_response w' 0 checks = Some xs"
    by (auto simp: get_status_checks_def split: sum.splits option.splits)
  from f have found: "found = map (\<lambda>d. d(''_id'' := None)) (take 1000 (status_checks s @ [?D]))"
    by (auto simp: find_to_list_def split: option.splits)
  with n have len: "?n < length found" and at: "found ! ?n = ?D(''_id'' := None)"
    by (simp_all add: nth_append)
  from convert_timestamps_nth [OF c len] at convert_created_doc [OF clk]
  have ck: "checks ! ?n = ?D(''_id'' := None, ''timestamp'' \<mapsto> PDate (now_utc w 0))"
    by simp
  from len convert_timestamps_length [OF c] have len': "?n < length checks" by simp
  from validate_response_nth [OF v len'] ck validate_created_doc
  have x: "xs ! ?n = ?obj" by simp
  from len' validate_response_length [OF v] have "?n < length xs" by simp
  with x created show ?thesis by simp
qed

theorem create_then_list_roundtrip_witness:
  "valid_datetime (clock (example_world (\<lambda>p. Inl (ResendError [])) None) 0) \<and>
   get_status_checks (example_world (\<lambda>p. Inl (ResendError [])) None)
     (snd (create_status_check (example_world (\<lambda>p. Inl (ResendError [])) None)
             \<lparr>client_name = ''acme-bot''\<rparr> empty_state)) =
     (Returned [\<lparr>client_name = ''acme-bot'', id' = ''0b6f4a52-8c1d-4e0a-9f57-3a2d6c1e7b90'',
                 timestamp = example_instant\<lparr>utcoffset := Some 0\<rparr>\<rparr>],
      snd (create_status_check (example_world (\<lambda>p. Inl (ResendError [])) None)
             \<lparr>client_name = ''acme-bot''\<rparr> empty_state)) \<and>
   fst (create_status_check (example_world (\<lambda>p. Inl (ResendError [])) None)
          \<lparr>client_name = ''acme-bot''\<rparr> empty_state) =
     Returned \<lparr>client_name = ''acme-bot'', id' = ''0b6f4a52-8c1d-4e0a-9f57-3a2d6c1e7b90'',
               timestamp = example_instant\<lparr>utcoffset := Some 0\<rparr>\<rparr>"
proof -
  let ?w = "example_world (\<lambda>p. Inl (ResendError [])) None"
  let ?i = "\<lparr>client_name = ''acme-bot''\<rparr>"
  let ?obj = "\<lparr>client_name = ''acme-bot'', id' = ''0b6f4a52-8c1d-4e0a-9f57-3a2d6c1e7b90'',
               timestamp = example_instant\<lparr>utcoffset := Some 0\<rparr>\<rparr>"
  have clk: "valid_datetime (clock ?w 0)"
    by (simp add: example_world_def example_instant_def valid_datetime_def days_in_month_def)
  have ins: "insert_fault ?w = None" by (simp add: example_world_def)
  have n: "length (status_checks empty_state) < 1000" by (simp add: empty_state_def)
  have before: "get_status_checks ?w empty_state = (Returned [], empty_state)"
    by (simp add: get_status_checks_def find_to_list_def example_world_def empty_state_def)
  have obj: "\<lparr>client_name = client_name ?i, id' = uuid4 ?w 0, timestamp = now_utc ?w 0\<rparr> = ?obj"
    by (simp add: example_world_def now_utc_def)
  from listing_after_create [OF clk ins n before, of ?i]
  have listed: "get_status_checks ?w (snd (create_status_check ?w ?i empty_state)) =
      (Returned [?obj], snd (create_status_check ?w ?i empty_state))"
    unfolding obj by simp
  from create_then_list_roundtrip [OF clk ins n listed]
  have "fst (create_status_check ?w ?i empty_state) = Returned ?obj"
    by (simp add: empty_state_def)
  with clk listed show ?thesis by blast
qed

text \<open>
  Claim C6. Whatever the collection holds, a listing that returns has at most 1000
  records: as many as the collection has, capped at 1000. It changes nothing.
\<close>

theorem list_at_most_1000:
  assumes "get_status_checks w s = (Returned xs, s')"
  shows "length xs \<le> 1000 \<and> length xs = min 1000 (length (status_checks s)) \<and> s' = s"
proof -
  from assms obtain found checks where
    f: "find_to_list w 1000 (status_checks s) = Inr found" and
    c: "convert_timestamps (fromisoformat_other w) found = Inr checks" and
    v: "validate_response w 0 checks = Some xs" and s: "s' = s"
    by (auto simp: get_status_checks_def split: sum.splits option.splits)
  from f have "length found = min 1000 (length (status_checks s))"
    by (auto simp: find_to_list_def split: option.splits)
  with convert_timestamps_length [OF c] validate_response_length [OF v] s
  show ?thesis by simp
qed

theorem list_at_most_1000_witness:
  "get_status_checks (example_world (\<lambda>p. Inl (ResendError [])) None)
     (empty_state\<lparr>status_checks := replicate 1001 example_status_doc\<rparr>) =
     (Returned (replicate 1000
        \<lparr>client_name = ''acme-bot'', id' = ''7c9e6679-7425-40de-944b-e07fc1f90ae7'',
         timestamp = example_instant\<lparr>utcoffset := Some 0\<rparr>\<rparr>),
      empty_state\<lparr>status_checks := replicate 1001 example_status_doc\<rparr>) \<and>
   length (replicate 1000
        \<lparr>client_name = ''acme-bot'', id' = ''7c9e6679-7425-40de-944b-e07fc1f90ae7'',
         timestamp = example_instant\<lparr>utcoffset := Some 0\<rparr>\<rparr>) \<le> 1000 \<and>
   length (status_checks (empty_state\<lparr>status_checks := replicate 1001 example_status_doc\<rparr>))
     = 1001"
proof -
  let ?w = "example_world (\<lambda>p. Inl (ResendError [])) None"
  let ?s = "empty_state\<lparr>status_checks := replicate 1001 example_status_doc\<rparr>"
  let ?obj = "\<lparr>client_name = ''acme-bot'', id' = ''7c9e6679-7425-40de-944b-e07fc1f90ae7'',
               timestamp = example_instant\<lparr>utcoffset := Some 0\<rparr>\<rparr>"
  let ?d = "example_status_doc(''_id'' := None)"
  let ?d' = "?d(''timestamp'' \<mapsto> PDate (example_instant\<lparr>utcoffset := Some 0\<rparr>))"
  have f: "find_to_list ?w 1000 (status_checks ?s) = Inr (replicate 1000 ?d)"
    by (simp add: find_to_list_def example_world_def)
  have c1: "convert_timestamp (fromisoformat_other ?w) ?d = Inr ?d'"
    by (simp add: convert_timestamp_def example_status_doc_def fromisoformat_def
        parse_example_timestamp)
  have v1: "\<And>j. validate_StatusCheck (uuid4 ?w j) (now_utc ?w j) ?d' = Some ?obj"
    by (simp add: validate_StatusCheck_def example_status_doc_def)
  have r: "get_status_checks ?w ?s = (Returned (replicate 1000 ?obj), ?s)"
    unfolding get_status_checks_def f
    by (simp add: convert_timestamps_replicate [OF c1] validate_response_replicate [OF v1]
       )
  from list_at_most_1000 [OF r] have "length (replicate 1000 ?obj) \<le> 1000" by blast
  with r show ?thesis by (simp)
qed


section \<open>The rendered email\<close>





section \<open>Validation of requests\<close>

text \<open>
  Claim C8. A contact payload whose \<^verbatim>\<open>email\<close> string has no \<^verbatim>\<open>@\<close> ends in a
  validation error (422) that names the field, with the state untouched: no send request,
  no document, no log record. This holds for every grammar of the two parts.
\<close>

theorem email_without_at_rejected:
  assumes "payload ''email'' = Some (PStr v)" and "CHR ''@'' \<notin> set v"
  shows "\<exists>errs. post_contact cfg w payload s = (RequestValidationError errs, s) \<and>
           ''email'' \<in> set errs \<and>
           status_code (fst (post_contact cfg w payload s)) = 422"
proof -
  have "email_value w payload = None"
    using assms by (simp add: email_value_def str_field_def EmailStr_def split_at_sign_None)
  then have "\<exists>errs. validate_ContactFormRequest w payload = Inl errs \<and> ''email'' \<in> set errs"
    by (simp add: validate_ContactFormRequest_def split: option.splits)
  then show ?thesis by (auto simp: post_contact_def)
qed

theorem email_without_at_rejected_witness:
  "post_contact example_config (example_world (\<lambda>p. Inr [''id'' \<mapsto> PStr ''e1'']) None)
     [''name'' \<mapsto> PStr ''Jo'', ''email'' \<mapsto> PStr ''jo.x.com'', ''message'' \<mapsto> PStr ''hi'']
     empty_state = (RequestValidationError [''email''], empty_state)"
proof -
  let ?p = "[''name'' \<mapsto> PStr ''Jo'', ''email'' \<mapsto> PStr ''jo.x.com'', ''message'' \<mapsto> PStr ''hi'']"
  let ?w = "example_world (\<lambda>p. Inr [''id'' \<mapsto> PStr ''e1'']) None"
  have e: "?p ''email'' = Some (PStr ''jo.x.com'')" and n: "CHR ''@'' \<notin> set ''jo.x.com''"
    by simp_all
  from email_without_at_rejected [of ?p "''jo.x.com''" example_config ?w empty_state] e n
  obtain errs where r: "post_contact example_config ?w ?p empty_state
                          = (RequestValidationError errs, empty_state)"
    by blast
  have "validate_ContactFormRequest ?w ?p = Inl [''email'']"
    by (simp add: validate_ContactFormRequest_def str_field_def company_value_def
        email_value_def EmailStr_def)
  then have "post_contact example_config ?w ?p empty_state
               = (RequestValidationError [''email''], empty_state)"
    by (simp add: post_contact_def)
  with r show ?thesis by simp
qed

text \<open>
  Claim C9. The \<^verbatim>\<open>id\<close> and \<^verbatim>\<open>timestamp\<close> of a payload change nothing in
  either route: the input models have no such fields. Every record that \<^verbatim>\<open>create\<close> or
  \<^verbatim>\<open>submit\<close> persists takes its id from \<^verbatim>\<open>uuid4\<close> and its timestamp from the
  clock read at offset zero, whose ISO text ends in \<^verbatim>\<open>+00:00\<close>.
\<close>

theorem server_generated_id_and_timestamp:
  "post_status w (payload(''id'' \<mapsto> a, ''timestamp'' \<mapsto> b)) s = post_status w payload s \<and>
   post_contact cfg w (payload(''id'' \<mapsto> a, ''timestamp'' \<mapsto> b)) s = post_contact cfg w payload s \<and>
   (fst (post_status w payload s) = Returned obj \<longrightarrow>
      id' obj = uuid4 w 0 \<and> timestamp obj = now_utc w 0 \<and>
      utcoffset (timestamp obj) = Some 0 \<and>
      (\<exists>doc. status_checks (snd (post_status w payload s)) = status_checks s @ [doc] \<and>
         doc ''id'' = Some (PStr (uuid4 w 0)) \<and>
         doc ''timestamp'' = Some (PStr (isoformat (now_utc w 0))))) \<and>
   (fst (post_contact cfg w payload s) = Returned r \<longrightarrow>
      (\<exists>doc. contact_submissions (snd (post_contact cfg w payload s)) =
               contact_submissions s @ [doc] \<and>
         doc ''id'' = Some (PStr (uuid4 w 0)) \<and>
         doc ''timestamp'' = Some (PStr (isoformat (now_utc w 1))))) \<and>
   suffix ''+00:00'' (isoformat (now_utc w k))"
proof -
  let ?p = "payload(''id'' \<mapsto> a, ''timestamp'' \<mapsto> b)"
  have v1: "validate_StatusCheckCreate ?p = validate_StatusCheckCreate payload"
    by (simp add: validate_StatusCheckCreate_def)
  have v2: "validate_ContactFormRequest w ?p = validate_ContactFormRequest w payload"
    by (simp add: validate_ContactFormRequest_def str_field_def company_value_def email_value_def)
  have 1: "post_status w ?p s = post_status w payload s"
    by (simp add: post_status_def v1)
  have 2: "post_contact cfg w ?p s = post_contact cfg w payload s"
    by (simp add: post_contact_def v2)
  have 3: "fst (post_status w payload s) = Returned obj \<longrightarrow>
      id' obj = uuid4 w 0 \<and> timestamp obj = now_utc w 0 \<and>
      utcoffset (timestamp obj) = Some 0 \<and>
      (\<exists>doc. status_checks (snd (post_status w payload s)) = status_checks s @ [doc] \<and>
         doc ''id'' = Some (PStr (uuid4 w 0)) \<and>
         doc ''timestamp'' = Some (PStr (isoformat (now_utc w 0))))"
    by (auto simp: post_status_def create_status_check_def status_doc_def insert_one_def
        Let_def now_utc_def split: sum.splits option.splits)
  have 4: "fst (post_contact cfg w payload s) = Returned r \<longrightarrow>
      (\<exists>doc. contact_submissions (snd (post_contact cfg w payload s)) =
               contact_submissions s @ [doc] \<and>
         doc ''id'' = Some (PStr (uuid4 w 0)) \<and>
         doc ''timestamp'' = Some (PStr (isoformat (now_utc w 1))))"
    by (auto simp: post_contact_def send_contact_email_def on_exception_def submission_doc_def
        insert_one_def Let_def split: sum.splits option.splits)
  from 1 2 3 4 isoformat_now_utc_suffix show ?thesis by blast
qed

theorem server_generated_id_and_timestamp_witness:
  "post_status (example_world (\<lambda>p. Inr [''id'' \<mapsto> PStr ''e1'']) None)
     [''client_name'' \<mapsto> PStr ''acme-bot'', ''id'' \<mapsto> PStr ''chosen-by-client'',
      ''timestamp'' \<mapsto> PStr ''1999-01-01T00:00:00+00:00''] empty_state =
   post_status (example_world (\<lambda>p. Inr [''id'' \<mapsto> PStr ''e1'']) None)
     [''client_name'' \<mapsto> PStr ''acme-bot''] empty_state \<and>
   fst (post_status (example_world (\<lambda>p. Inr [''id'' \<mapsto> PStr ''e1'']) None)
     [''client_name'' \<mapsto> PStr ''acme-bot''] empty_state) =
     Returned \<lparr>client_name = ''acme-bot'', id' = ''0b6f4a52-8c1d-4e0a-9f57-3a2d6c1e7b90'',
               timestamp = example_instant\<lparr>utcoffset := Some 0\<rparr>\<rparr> \<and>
   map (\<lambda>d. d ''id'')
     (status_checks (snd (post_status (example_world (\<lambda>p. Inr [''id'' \<mapsto> PStr ''e1'']) None)
        [''client_name'' \<mapsto> PStr ''acme-bot''] empty_state))) =
     [Some (PStr ''0b6f4a52-8c1d-4e0a-9f57-3a2d6c1e7b90'')] \<and>
   (\<exists>r. fst (post_contact example_config (example_world (\<lambda>p. Inr [''id'' \<mapsto> PStr ''e1'']) None)
     [''name'' \<mapsto> PStr ''Jo'', ''email'' \<mapsto> PStr ''jo@x.com'', ''message'' \<mapsto> PStr ''hi'']
     empty_state) = Returned r) \<and>
   map (\<lambda>d. d ''id'')
     (contact_submissions (snd (post_contact example_config
        (example_world (\<lambda>p. Inr [''id'' \<mapsto> PStr ''e1'']) None)
        [''name'' \<mapsto> PStr ''Jo'', ''email'' \<mapsto> PStr ''jo@x.com'', ''message'' \<mapsto> PStr ''hi'']
        empty_state))) =
     [Some (PStr ''0b6f4a52-8c1d-4e0a-9f57-3a2d6c1e7b90'')]"
proof -
  let ?w = "example_world (\<lambda>p. Inr [''id'' \<mapsto> PStr ''e1'']) None"
  let ?p = "[''client_name'' \<mapsto> PStr ''acme-bot'']"
  let ?q = "[''name'' \<mapsto> PStr ''Jo'', ''email'' \<mapsto> PStr ''jo@x.com'', ''message'' \<mapsto> PStr ''hi'']"
  let ?obj = "\<lparr>client_name = ''acme-bot'', id' = ''0b6f4a52-8c1d-4e0a-9f57-3a2d6c1e7b90'',
               timestamp = example_instant\<lparr>utcoffset := Some 0\<rparr>\<rparr>"
  have ret: "fst (post_status ?w ?p empty_state) = Returned ?obj"
    by (simp add: post_status_def validate_StatusCheckCreate_def create_status_check_def
        insert_one_def Let_def example_world_def now_utc_def)
  have vq: "validate_ContactFormRequest ?w ?q
              = Inr \<lparr>name = ''Jo'', email = ''jo@x.com'', company = [], message = ''hi''\<rparr>"
    by (simp add: validate_ContactFormRequest_def str_field_def company_value_def
        email_value_def EmailStr_def example_world_def)
  have retq: "fst (post_contact example_config ?w ?q empty_state)
                = Returned (success_response [''id'' \<mapsto> PStr ''e1''])"
  proof -
    have "post_contact example_config ?w ?q empty_state =
            send_contact_email example_config ?w
              \<lparr>name = ''Jo'', email = ''jo@x.com'', company = [], message = ''hi''\<rparr> empty_state"
      by (simp only: post_contact_def vq sum.case)
    then show ?thesis
      by (simp add: send_contact_email_def insert_one_def Let_def example_world_def)
  qed
  note t = server_generated_id_and_timestamp [of ?w ?p "PStr ''chosen-by-client''"
      "PStr ''1999-01-01T00:00:00+00:00''" empty_state example_config ?obj _ 0]
  note u = server_generated_id_and_timestamp [of ?w ?q "PStr ''chosen-by-client''"
      "PStr ''1999-01-01T00:00:00+00:00''" empty_state example_config _
      "success_response [''id'' \<mapsto> PStr ''e1'']" 0]
  from t have 1: "post_status ?w (?p(''id'' \<mapsto> PStr ''chosen-by-client'',
      ''timestamp'' \<mapsto> PStr ''1999-01-01T00:00:00+00:00'')) empty_state
        = post_status ?w ?p empty_state"
    by blast
  from t ret have "\<exists>doc. status_checks (snd (post_status ?w ?p empty_state))
        = status_checks empty_state @ [doc] \<and> doc ''id'' = Some (PStr (uuid4 ?w 0))"
    by blast
  then have 3: "map (\<lambda>d. d ''id'') (status_checks (snd (post_status ?w ?p empty_state)))
        = [Some (PStr ''0b6f4a52-8c1d-4e0a-9f57-3a2d6c1e7b90'')]"
    by (auto simp: empty_state_def example_world_def)
  from u retq have "\<exists>doc. contact_submissions (snd (post_contact example_config ?w ?q empty_state))
        = contact_submissions empty_state @ [doc] \<and> doc ''id'' = Some (PStr (uuid4 ?w 0))"
    by blast
  then have 5: "map (\<lambda>d. d ''id'')
      (contact_submissions (snd (post_contact example_config ?w ?q empty_state)))
        = [Some (PStr ''0b6f4a52-8c1d-4e0a-9f57-3a2d6c1e7b90'')]"
    by (auto simp: empty_state_def example_world_def)
  from 1 ret 3 retq 5 show ?thesis by simp
qed

text \<open>
  Claim C10. The payload with the empty string for \<^verbatim>\<open>client_name\<close> passes
  validation, and the handler returns the StatusCheck with that empty name and stores its
  document; the only other end is the store's own exception on the insert, which escapes.
\<close>

theorem empty_client_name_accepted:
  "validate_StatusCheckCreate [''client_name'' \<mapsto> PStr ''''] = Inr \<lparr>client_name = ''''\<rparr> \<and>
   post_status w [''client_name'' \<mapsto> PStr ''''] s =
     (case insert_fault w of
        None \<Rightarrow>
          (Returned \<lparr>client_name = '''', id' = uuid4 w 0, timestamp = now_utc w 0\<rparr>,
           s\<lparr>status_checks := status_checks s @
               [[''id'' \<mapsto> PStr (uuid4 w 0), ''client_name'' \<mapsto> PStr '''',
                 ''timestamp'' \<mapsto> PStr (isoformat (now_utc w 0)),
                 ''_id'' \<mapsto> PObjectId (ObjectId w)]]\<rparr>)
      | Some e \<Rightarrow> (Unhandled e, s))"
  by (simp add: validate_StatusCheckCreate_def post_status_def create_status_check_def
      status_doc_def insert_one_def Let_def split: option.splits)

end
